theory Spec2Isabelle
  imports Main "HOL-Library.Sublist"
begin

section \<open>Export of a quantized model: \<^verbatim>\<open>stablehlo/cc/export.cc\<close>\<close>

subsection \<open>Strings (absl)\<close>

text \<open>
  \<^verbatim>\<open>absl::StrContains(haystack, needle)\<close> is \<^verbatim>\<open>haystack.find(needle) != npos\<close>: the needle
  is tried at every position of the haystack, from the left. Bytes are compared as they
  are, so the match is case-sensitive.
\<close>

fun StrContains :: "string \<Rightarrow> string \<Rightarrow> bool" where
  "StrContains [] needle = (needle = [])"
| "StrContains (c # cs) needle = (prefix needle (c # cs) \<or> StrContains cs needle)"

text \<open>\<^verbatim>\<open>absl::StrCat\<close> concatenates its arguments.\<close>

definition StrCat :: "string list \<Rightarrow> string" where
  "StrCat pieces = concat pieces"

text \<open>\<^verbatim>\<open>absl::StrJoin(range, separator)\<close> puts the separator between consecutive elements.\<close>

fun StrJoin :: "string list \<Rightarrow> string \<Rightarrow> string" where
  "StrJoin [] sep = []"
| "StrJoin [x] sep = x"
| "StrJoin (x # y # zs) sep = x @ sep @ StrJoin (y # zs) sep"

subsection \<open>Data model (protocol buffer messages)\<close>

text \<open>
  Modelled from the spec: the message type \<^verbatim>\<open>AttrValue\<close> is declared outside the sources
  at hand. An attribute value is a scalar or a list of strings; \<^verbatim>\<open>.list().s()\<close> of a value
  that holds no list is the empty list (the default instance of the unset field).
\<close>

datatype AttrValue = AttrScalar string | AttrList "string list"

fun list_s :: "AttrValue \<Rightarrow> string list" where
  "list_s (AttrList xs) = xs"
| "list_s (AttrScalar v) = []"

record NodeDef =
  name :: string
  op :: string
  attr :: "string \<rightharpoonup> AttrValue"

text \<open>\<^verbatim>\<open>graph_def.node()\<close> is a repeated field: the nodes in their stored order.\<close>

record GraphDef =
  node :: "NodeDef list"

datatype CheckpointFormatVersion = LEGACY | V1 | V2

record SaverDef =
  filename_tensor_name :: string
  save_tensor_name :: string
  restore_op_name :: string
  version :: CheckpointFormatVersion

text \<open>\<^verbatim>\<open>SaverDef saver_def{}\<close>: every field at its default.\<close>

definition SaverDef_default :: SaverDef where
  "SaverDef_default =
     \<lparr>filename_tensor_name = [], save_tensor_name = [], restore_op_name = [], version = LEGACY\<rparr>"

text \<open>
  The asset descriptors are carried through unread, so their type is a parameter.
\<close>

record 'asset ExportedModel =
  graph_def :: GraphDef
  init_node_name :: string
  checkpoint_dir :: string
  function_aliases :: "string \<rightharpoonup> string"
  asset_file_defs :: "'asset list"
  saver_def :: "SaverDef option"

definition ExportedModel_default :: "'asset ExportedModel" where
  "ExportedModel_default =
     \<lparr>graph_def = \<lparr>node = []\<rparr>, init_node_name = [], checkpoint_dir = [],
      function_aliases = Map.empty, asset_file_defs = [], saver_def = None\<rparr>"

subsection \<open>Errors (absl::Status)\<close>

datatype StatusCode = kInternal

datatype Status = Status (code: StatusCode) (message: string)

definition InternalError :: "string \<Rightarrow> Status" where
  "InternalError msg = Status kInternal msg"

subsection \<open>Reserved string constants\<close>

text \<open>
  The five constants the file reads are declared in headers outside the sources at hand
  (\<^verbatim>\<open>FunctionLibraryDefinition::kArgOp\<close>, \<^verbatim>\<open>kTfSavedModelIndexPathAttr\<close>, \<^verbatim>\<open>kTfFilePrefix\<close>,
  \<^verbatim>\<open>kTfSavedModelInitializerRestoreType\<close>, \<^verbatim>\<open>kTfQuantSaveOpName\<close>); every function that
  reads one takes them as a parameter.
\<close>

record Constants =
  kArgOp :: string
  kTfSavedModelIndexPathAttr :: string
  kTfFilePrefix :: string
  kTfSavedModelInitializerRestoreType :: string
  kTfQuantSaveOpName :: string

text \<open>
  Modelled from the spec: values of the constants, whose declarations are missing. The
  argument operation, the attribute name and the file prefix marker are the ones the
  comment above \<^verbatim>\<open>FindFilePrefixTensorName\<close> names; the two control-output markers are
  the ones of the resolver scenario.
\<close>

definition scenario_constants :: Constants where
  "scenario_constants =
     \<lparr>kArgOp = ''_Arg'',
      kTfSavedModelIndexPathAttr = ''tf_saved_model.index_path'',
      kTfFilePrefix = ''__tf_file_prefix'',
      kTfSavedModelInitializerRestoreType = ''Restore'',
      kTfQuantSaveOpName = ''save_op''\<rparr>"

subsection \<open>GetNodeName\<close>

text \<open>
  The loop over \<^verbatim>\<open>control_ret_node_names\<close> returns at the first name that contains
  \<^verbatim>\<open>contains\<close>; falling out of the loop returns the empty string. The \<^verbatim>\<open>VLOG\<close> lines
  only log.
\<close>

fun GetNodeName :: "string list \<Rightarrow> string \<Rightarrow> string" where
  "GetNodeName [] contains = []"
| "GetNodeName (node_name # rest) contains =
     (if StrContains node_name contains then node_name else GetNodeName rest contains)"

subsection \<open>FindFilePrefixTensorName\<close>

fun FindFilePrefixTensorName_loop :: "Constants \<Rightarrow> NodeDef list \<Rightarrow> string" where
  "FindFilePrefixTensorName_loop c [] = []"
| "FindFilePrefixTensorName_loop c (node_def # rest) =
     (if op node_def = kArgOp c then
        (case attr node_def (kTfSavedModelIndexPathAttr c) of
           Some index_path_attr \<Rightarrow>
             (let index_paths = list_s index_path_attr in
              if kTfFilePrefix c \<in> set index_paths
              then StrCat [name node_def, '':0'']
              else FindFilePrefixTensorName_loop c rest)
         | None \<Rightarrow> FindFilePrefixTensorName_loop c rest)
      else FindFilePrefixTensorName_loop c rest)"

definition FindFilePrefixTensorName :: "Constants \<Rightarrow> GraphDef \<Rightarrow> string" where
  "FindFilePrefixTensorName c graph = FindFilePrefixTensorName_loop c (node graph)"

subsection \<open>CreateSaverDef\<close>

definition CreateSaverDef_message :: string where
  "CreateSaverDef_message =
     ''Failed to create SaverDef. Fields should be either all '' @
     ''empty strings or all non-empty strings. Got fields: ''"

definition CreateSaverDef ::
  "Constants \<Rightarrow> string list \<Rightarrow> GraphDef \<Rightarrow> Status + SaverDef option" where
  "CreateSaverDef c control_ret_node_names graph =
     (let filename_tensor = FindFilePrefixTensorName c graph;
          restore_op = GetNodeName control_ret_node_names (kTfSavedModelInitializerRestoreType c);
          save_node = GetNodeName control_ret_node_names (kTfQuantSaveOpName c);
          fields = [filename_tensor, restore_op, save_node];
          is_empty_predicate = (\<lambda>s. s = [])
      in if list_all is_empty_predicate fields then Inr None
         else if \<not> list_ex is_empty_predicate fields then
           Inr (Some (SaverDef_default
             \<lparr>version := V2,
              filename_tensor_name := filename_tensor,
              restore_op_name := restore_op,
              save_tensor_name := StrCat [save_node, '':0'']\<rparr>))
         else Inl (InternalError (StrCat [CreateSaverDef_message, StrJoin fields '',''])))"

subsection \<open>CreateExportedModel\<close>

text \<open>
  \<^verbatim>\<open>GraphDef&& graph_def\<close> is a reference to an object of the caller. The function returns the
  caller's object as it stands at the return, next to the model it built.
  In \<^verbatim>\<open>*exported_model.mutable_graph_def() = graph_def\<close> the right-hand side is the named
  parameter, an lvalue, so the assignment is the copy assignment: the target receives the
  value and the source keeps it.
\<close>

definition copy_assign :: "'m \<Rightarrow> 'm \<times> 'm" where
  "copy_assign source = (source, source)"

text \<open>
  \<^verbatim>\<open>insert(first, last)\<close> on a map adds the keys that are not there yet.
\<close>

definition insert_range :: "('k \<rightharpoonup> 'v) \<Rightarrow> ('k \<rightharpoonup> 'v) \<Rightarrow> ('k \<rightharpoonup> 'v)" where
  "insert_range target entries = entries ++ target"

definition CreateExportedModel ::
  "GraphDef \<Rightarrow> string \<Rightarrow> string \<Rightarrow> SaverDef option \<Rightarrow> (string \<rightharpoonup> string) \<Rightarrow> 'asset list
   \<Rightarrow> 'asset ExportedModel \<times> GraphDef" where
  "CreateExportedModel graph init_node checkpoint saver aliases assets =
     (let exported_model = ExportedModel_default;
          (assigned, graph_after) = copy_assign graph;
          exported_model = exported_model\<lparr>graph_def := assigned\<rparr>;
          exported_model = exported_model\<lparr>init_node_name := init_node\<rparr>;
          exported_model = exported_model\<lparr>checkpoint_dir := checkpoint\<rparr>;
          exported_model = exported_model
            \<lparr>function_aliases := insert_range (function_aliases exported_model) aliases\<rparr>;
          exported_model = foldl
            (\<lambda>m asset_file_def. m\<lparr>asset_file_defs := asset_file_defs m @ [asset_file_def]\<rparr>)
            exported_model assets;
          exported_model = (case saver of
             Some s \<Rightarrow> exported_model\<lparr>saver_def := Some s\<rparr>
           | None \<Rightarrow> exported_model)
      in (exported_model, graph_after))"

subsection \<open>AddExportPasses\<close>

text \<open>
  Each pass is opaque; the pass manager is the list of the passes added so far.
  \<^verbatim>\<open>addNestedPass<func::FuncOp>\<close> adds a pass that runs on every function,
  \<^verbatim>\<open>addPass\<close> one that runs on the module.
\<close>

datatype Pass =
    DuplicateShapeDeterminingConstantsPass
  | InsertMainFunctionPass
  | LiftHashTableOpsAsArgsPass
  | FunctionalToExecutorDialectConversionPass
  | BreakUpIslandsPass
  | MergeInitializerFunctionOpsToMainPass
  | MergeSaveFunctionOpsToMainPass
  | MergeDuplicateResourceOpsPass
  | StripNoinlineAttributePass

datatype Stage = ModulePass Pass | FuncOpPass Pass

type_synonym PassManager = "Stage list"

definition addPass :: "PassManager \<Rightarrow> Pass \<Rightarrow> PassManager" where
  "addPass pm p = pm @ [ModulePass p]"

definition addNestedPass :: "PassManager \<Rightarrow> Pass \<Rightarrow> PassManager" where
  "addNestedPass pm p = pm @ [FuncOpPass p]"

definition AddExportPasses :: "PassManager \<Rightarrow> bool \<Rightarrow> PassManager" where
  "AddExportPasses pm duplicate_shape_determining_constants =
     (let pm = (if duplicate_shape_determining_constants
                then addNestedPass pm DuplicateShapeDeterminingConstantsPass else pm);
          pm = addPass pm InsertMainFunctionPass;
          pm = addPass pm LiftHashTableOpsAsArgsPass;
          pm = addNestedPass pm FunctionalToExecutorDialectConversionPass;
          pm = addPass pm BreakUpIslandsPass;
          pm = addPass pm MergeInitializerFunctionOpsToMainPass;
          pm = addPass pm MergeSaveFunctionOpsToMainPass;
          pm = addNestedPass pm MergeDuplicateResourceOpsPass;
          pm = addPass pm StripNoinlineAttributePass
      in pm)"

subsection \<open>The nodes the locator looks for\<close>

text \<open>
  In the words of the specification: a node whose operation tag is the argument operation
  and whose index-path attribute, a list of strings, has the reserved marker among its
  elements. The loop of \<^verbatim>\<open>FindFilePrefixTensorName\<close> above is written from the code; the
  theorems relate the two.
\<close>

definition is_file_prefix_arg :: "Constants \<Rightarrow> NodeDef \<Rightarrow> bool" where
  "is_file_prefix_arg c n \<longleftrightarrow>
     op n = kArgOp c \<and>
     (case attr n (kTfSavedModelIndexPathAttr c) of
        Some v \<Rightarrow> kTfFilePrefix c \<in> set (list_s v)
      | None \<Rightarrow> False)"

subsection \<open>Concrete inputs\<close>

definition scenario_names :: "string list" where
  "scenario_names = [''Restore_1'', ''tf_quant__save_op'', ''Unrelated'']"

text \<open>An argument node that carries the file prefix marker in its index path.\<close>

definition file_prefix_node :: "string \<Rightarrow> NodeDef" where
  "file_prefix_node n =
     \<lparr>name = n, op = ''_Arg'',
      attr = [''tf_saved_model.index_path'' \<mapsto> AttrList [''__tf_file_prefix'']]\<rparr>"

text \<open>An argument node with another index path.\<close>

definition other_arg_node :: "string \<Rightarrow> NodeDef" where
  "other_arg_node n =
     \<lparr>name = n, op = ''_Arg'',
      attr = [''tf_saved_model.index_path'' \<mapsto> AttrList [''input_1'']]\<rparr>"

definition scenario_graph :: GraphDef where
  "scenario_graph = \<lparr>node = [file_prefix_node ''file_prefix'']\<rparr>"

definition no_prefix_graph :: GraphDef where
  "no_prefix_graph = \<lparr>node = [other_arg_node ''input'']\<rparr>"

definition two_prefix_graph :: GraphDef where
  "two_prefix_graph =
     \<lparr>node = [other_arg_node ''input'', file_prefix_node ''first_prefix'',
              file_prefix_node ''second_prefix'']\<rparr>"

section \<open>Properties\<close>

subsection \<open>Substring search\<close>

lemma StrContains_iff_sublist: "StrContains haystack needle \<longleftrightarrow> sublist needle haystack"
  by (induction haystack) (simp_all add: sublist_Cons_right)

lemma StrContains_empty_needle: "StrContains haystack []"
  by (cases haystack) simp_all

subsection \<open>The resolver loop\<close>

lemma GetNodeName_skip:
  "\<forall>x\<in>set pre. \<not> StrContains x m \<Longrightarrow> GetNodeName (pre @ rest) m = GetNodeName rest m"
  by (induction pre) simp_all

lemma GetNodeName_no_match:
  "\<forall>x\<in>set names. \<not> StrContains x m \<Longrightarrow> GetNodeName names m = []"
  by (induction names) simp_all

lemma GetNodeName_result:
  "GetNodeName names m = [] \<or>
   (GetNodeName names m \<in> set names \<and> StrContains (GetNodeName names m) m)"
  by (induction names) auto

subsection \<open>The locator loop\<close>

lemma loop_step:
  "FindFilePrefixTensorName_loop c (n # rest) =
     (if is_file_prefix_arg c n then name n @ '':0'' else FindFilePrefixTensorName_loop c rest)"
  by (simp add: is_file_prefix_arg_def StrCat_def split: option.split)

lemma loop_skip:
  "\<forall>x\<in>set pre. \<not> is_file_prefix_arg c x \<Longrightarrow>
   FindFilePrefixTensorName_loop c (pre @ rest) = FindFilePrefixTensorName_loop c rest"
  by (induction pre) (simp_all add: loop_step del: FindFilePrefixTensorName_loop.simps(2))

lemma loop_no_match:
  "\<forall>x\<in>set ns. \<not> is_file_prefix_arg c x \<Longrightarrow> FindFilePrefixTensorName_loop c ns = []"
  by (induction ns) (simp_all add: loop_step del: FindFilePrefixTensorName_loop.simps(2))

lemma loop_result:
  "FindFilePrefixTensorName_loop c ns = [] \<or>
   (\<exists>n\<in>set ns. is_file_prefix_arg c n \<and> FindFilePrefixTensorName_loop c ns = name n @ '':0'')"
  by (induction ns) (auto simp add: loop_step simp del: FindFilePrefixTensorName_loop.simps(2))

lemma loop_suffix:
  "FindFilePrefixTensorName_loop c ns = [] \<or> suffix '':0'' (FindFilePrefixTensorName_loop c ns)"
  using loop_result [of c ns] by (auto simp: suffix_def)

lemma loop_first_of_filter:
  "filter (is_file_prefix_arg c) ns \<noteq> [] \<Longrightarrow>
   FindFilePrefixTensorName_loop c ns = name (hd (filter (is_file_prefix_arg c) ns)) @ '':0''"
  by (induction ns) (auto simp add: loop_step simp del: FindFilePrefixTensorName_loop.simps(2))

subsection \<open>Values on the concrete inputs\<close>

lemma file_prefix_node_matches: "is_file_prefix_arg scenario_constants (file_prefix_node n)"
  by (simp add: is_file_prefix_arg_def scenario_constants_def file_prefix_node_def)

lemma other_arg_node_no_match: "\<not> is_file_prefix_arg scenario_constants (other_arg_node n)"
  by (simp add: is_file_prefix_arg_def scenario_constants_def other_arg_node_def)

lemma file_prefix_node_name: "name (file_prefix_node n) = n"
  by (simp add: file_prefix_node_def)

lemma locator_scenario_graph:
  "FindFilePrefixTensorName scenario_constants scenario_graph = ''file_prefix:0''"
  by (simp add: FindFilePrefixTensorName_def scenario_graph_def loop_step
      file_prefix_node_matches file_prefix_node_name del: FindFilePrefixTensorName_loop.simps(2))

lemma resolver_scenario_restore:
  "GetNodeName scenario_names (kTfSavedModelInitializerRestoreType scenario_constants) = ''Restore_1''"
  by (simp add: scenario_names_def scenario_constants_def)

lemma resolver_scenario_save:
  "GetNodeName scenario_names (kTfQuantSaveOpName scenario_constants) = ''tf_quant__save_op''"
  by (simp add: scenario_names_def scenario_constants_def)

subsection \<open>The three-way classification of CreateSaverDef\<close>

lemma CreateSaverDef_cases:
  "CreateSaverDef c names graph =
     (let f = FindFilePrefixTensorName c graph;
          r = GetNodeName names (kTfSavedModelInitializerRestoreType c);
          s = GetNodeName names (kTfQuantSaveOpName c)
      in if f = [] \<and> r = [] \<and> s = [] then Inr None
         else if f \<noteq> [] \<and> r \<noteq> [] \<and> s \<noteq> [] then
           Inr (Some \<lparr>filename_tensor_name = f, save_tensor_name = s @ '':0'',
                      restore_op_name = r, version = V2\<rparr>)
         else Inl (InternalError (CreateSaverDef_message @ f @ '','' @ r @ '','' @ s)))"
  by (simp add: CreateSaverDef_def Let_def StrCat_def SaverDef_default_def)

section \<open>The claims\<close>

text \<open>
  C1. Whenever exactly one or exactly two of the three signals (the file prefix tensor
  name of the locator, the restore name and the save name of the resolver) are empty,
  \<^verbatim>\<open>CreateSaverDef\<close> returns an internal error, never an Ok value, and the message of the
  error ends with the three raw field values joined by commas.
\<close>

theorem CreateSaverDef_mixed_fields_internal_error:
  assumes "filename_tensor = FindFilePrefixTensorName c graph"
      and "restore_op = GetNodeName names (kTfSavedModelInitializerRestoreType c)"
      and "save_node = GetNodeName names (kTfQuantSaveOpName c)"
      and "length (filter (\<lambda>s. s = []) [filename_tensor, restore_op, save_node]) \<in> {1, 2}"
  shows "CreateSaverDef c names graph =
           Inl (Status kInternal
             (CreateSaverDef_message @ filename_tensor @ '','' @ restore_op @ '','' @ save_node))
         \<and> (\<forall>ok. CreateSaverDef c names graph \<noteq> Inr ok)"
  using assms by (simp add: CreateSaverDef_cases Let_def InternalError_def split: if_splits)

theorem CreateSaverDef_mixed_fields_internal_error_witness:
  "length (filter (\<lambda>s. s = [])
     [FindFilePrefixTensorName scenario_constants scenario_graph,
      GetNodeName [''Restore_1'', ''Unrelated'']
        (kTfSavedModelInitializerRestoreType scenario_constants),
      GetNodeName [''Restore_1'', ''Unrelated''] (kTfQuantSaveOpName scenario_constants)])
     \<in> {1, 2}
   \<and> CreateSaverDef scenario_constants [''Restore_1'', ''Unrelated''] scenario_graph =
       Inl (Status kInternal (CreateSaverDef_message @ ''file_prefix:0,Restore_1,''))"
proof -
  have r: "GetNodeName [''Restore_1'', ''Unrelated'']
             (kTfSavedModelInitializerRestoreType scenario_constants) = ''Restore_1''"
    by (simp add: scenario_constants_def)
  have s: "GetNodeName [''Restore_1'', ''Unrelated''] (kTfQuantSaveOpName scenario_constants) = []"
    by (simp add: scenario_constants_def)
  have h: "length (filter (\<lambda>s. s = []) [''file_prefix:0'', ''Restore_1'', []]) \<in> {1, 2::nat}"
    by simp
  from CreateSaverDef_mixed_fields_internal_error
         [OF locator_scenario_graph [symmetric] r [symmetric] s [symmetric] h] h
  show ?thesis
    unfolding locator_scenario_graph r s by simp
qed

text \<open>
  C2. Whenever all three signals are non-empty, \<^verbatim>\<open>CreateSaverDef\<close> returns a descriptor of
  version V2 whose file name tensor is the locator's result, whose restore operation is
  the resolver's restore result and whose save tensor is the resolver's save result
  followed by \<^verbatim>\<open>:0\<close>.
\<close>

theorem CreateSaverDef_all_present_descriptor:
  assumes "filename_tensor = FindFilePrefixTensorName c graph"
      and "restore_op = GetNodeName names (kTfSavedModelInitializerRestoreType c)"
      and "save_node = GetNodeName names (kTfQuantSaveOpName c)"
      and "filename_tensor \<noteq> []" and "restore_op \<noteq> []" and "save_node \<noteq> []"
  shows "CreateSaverDef c names graph =
           Inr (Some \<lparr>filename_tensor_name = filename_tensor,
                      save_tensor_name = save_node @ '':0'',
                      restore_op_name = restore_op,
                      version = V2\<rparr>)"
  using assms by (simp add: CreateSaverDef_cases Let_def)

theorem CreateSaverDef_all_present_descriptor_witness:
  "FindFilePrefixTensorName scenario_constants scenario_graph \<noteq> []
   \<and> GetNodeName scenario_names (kTfSavedModelInitializerRestoreType scenario_constants) \<noteq> []
   \<and> GetNodeName scenario_names (kTfQuantSaveOpName scenario_constants) \<noteq> []
   \<and> CreateSaverDef scenario_constants scenario_names scenario_graph =
       Inr (Some \<lparr>filename_tensor_name = ''file_prefix:0'',
                  save_tensor_name = ''tf_quant__save_op:0'',
                  restore_op_name = ''Restore_1'',
                  version = V2\<rparr>)"
proof -
  have ne: "''file_prefix:0'' \<noteq> []" "''Restore_1'' \<noteq> []" "''tf_quant__save_op'' \<noteq> []"
    by simp_all
  from CreateSaverDef_all_present_descriptor
         [OF locator_scenario_graph [symmetric] resolver_scenario_restore [symmetric]
             resolver_scenario_save [symmetric] ne]
  show ?thesis
    unfolding locator_scenario_graph resolver_scenario_restore resolver_scenario_save by simp
qed

text \<open>
  C3. When no node of the graph is an argument node carrying the marker and no control
  output name contains the restore marker or the save marker, \<^verbatim>\<open>CreateSaverDef\<close> returns
  Ok with no descriptor: the absence of all three signals is not an error.
\<close>

theorem CreateSaverDef_all_absent_none:
  assumes "\<forall>n\<in>set (node graph). \<not> is_file_prefix_arg c n"
      and "\<forall>x\<in>set names. \<not> sublist (kTfSavedModelInitializerRestoreType c) x"
      and "\<forall>x\<in>set names. \<not> sublist (kTfQuantSaveOpName c) x"
  shows "CreateSaverDef c names graph = Inr None"
  using assms
  by (simp add: CreateSaverDef_cases Let_def FindFilePrefixTensorName_def loop_no_match
      GetNodeName_no_match StrContains_iff_sublist)

theorem CreateSaverDef_all_absent_none_witness:
  "node no_prefix_graph = [other_arg_node ''input'']
   \<and> \<not> is_file_prefix_arg scenario_constants (other_arg_node ''input'')
   \<and> \<not> sublist (kTfSavedModelInitializerRestoreType scenario_constants) ''restore_1''
   \<and> \<not> sublist (kTfSavedModelInitializerRestoreType scenario_constants) ''Unrelated''
   \<and> \<not> sublist (kTfQuantSaveOpName scenario_constants) ''restore_1''
   \<and> \<not> sublist (kTfQuantSaveOpName scenario_constants) ''Unrelated''
   \<and> CreateSaverDef scenario_constants [''restore_1'', ''Unrelated''] no_prefix_graph = Inr None"
proof -
  have g: "\<forall>n\<in>set (node no_prefix_graph). \<not> is_file_prefix_arg scenario_constants n"
    by (simp add: no_prefix_graph_def other_arg_node_no_match)
  have r: "\<forall>x\<in>set [''restore_1'', ''Unrelated''].
             \<not> sublist (kTfSavedModelInitializerRestoreType scenario_constants) x"
    by (simp add: scenario_constants_def StrContains_iff_sublist [symmetric])
  have s: "\<forall>x\<in>set [''restore_1'', ''Unrelated''].
             \<not> sublist (kTfQuantSaveOpName scenario_constants) x"
    by (simp add: scenario_constants_def StrContains_iff_sublist [symmetric])
  from CreateSaverDef_all_absent_none [OF g r s] g r s show ?thesis
    by (simp add: no_prefix_graph_def)
qed

text \<open>
  C4. \<^verbatim>\<open>GetNodeName\<close> returns the first name, in the order of the list, that has the marker
  as a contiguous substring (bytes compared as they are), whatever follows it in the
  list; it returns the empty string when no name has it. On the names
  \<^verbatim>\<open>Restore_1, tf_quant__save_op, Unrelated\<close> the marker \<^verbatim>\<open>Restore\<close> gives \<^verbatim>\<open>Restore_1\<close> and
  the marker \<^verbatim>\<open>save_op\<close> gives \<^verbatim>\<open>tf_quant__save_op\<close>.
\<close>

theorem GetNodeName_first_match:
  "(\<forall>pre n post. names = pre @ n # post \<and> (\<forall>x\<in>set pre. \<not> sublist marker x) \<and> sublist marker n
      \<longrightarrow> GetNodeName names marker = n)
   \<and> ((\<forall>x\<in>set names. \<not> sublist marker x) \<longrightarrow> GetNodeName names marker = [])
   \<and> GetNodeName [''Restore_1'', ''tf_quant__save_op'', ''Unrelated''] ''Restore'' = ''Restore_1''
   \<and> GetNodeName [''Restore_1'', ''tf_quant__save_op'', ''Unrelated''] ''save_op''
       = ''tf_quant__save_op''"
proof -
  have "GetNodeName names marker = n"
    if "names = pre @ n # post" "\<forall>x\<in>set pre. \<not> sublist marker x" "sublist marker n"
    for pre n post
    using that by (simp add: GetNodeName_skip StrContains_iff_sublist)
  moreover have "GetNodeName names marker = []" if "\<forall>x\<in>set names. \<not> sublist marker x"
    using that by (simp add: GetNodeName_no_match StrContains_iff_sublist)
  moreover have
    "GetNodeName [''Restore_1'', ''tf_quant__save_op'', ''Unrelated''] ''Restore'' = ''Restore_1''"
    by simp
  moreover have
    "GetNodeName [''Restore_1'', ''tf_quant__save_op'', ''Unrelated''] ''save_op''
       = ''tf_quant__save_op''"
    by simp
  ultimately show ?thesis by blast
qed

theorem GetNodeName_first_match_witness:
  "([''Unrelated'', ''Restore_1'', ''Restore_2''] = [''Unrelated''] @ ''Restore_1'' # [''Restore_2'']
    \<and> \<not> sublist ''Restore'' ''Unrelated'' \<and> sublist ''Restore'' ''Restore_1''
    \<and> GetNodeName [''Unrelated'', ''Restore_1'', ''Restore_2''] ''Restore'' = ''Restore_1'')
   \<and> (\<not> sublist ''Restore'' ''restore_1'' \<and> \<not> sublist ''Restore'' ''Unrelated''
    \<and> GetNodeName [''restore_1'', ''Unrelated''] ''Restore'' = [])"
proof -
  have a: "[''Unrelated'', ''Restore_1'', ''Restore_2'']
           = [''Unrelated''] @ ''Restore_1'' # [''Restore_2'']"
    by simp
  have b: "\<not> sublist ''Restore'' ''Unrelated''"
    by (simp add: StrContains_iff_sublist [symmetric])
  have c: "sublist ''Restore'' ''Restore_1''"
    by (simp add: StrContains_iff_sublist [symmetric])
  have d: "\<not> sublist ''Restore'' ''restore_1''"
    by (simp add: StrContains_iff_sublist [symmetric])
  have pre: "\<forall>x\<in>set [''Unrelated'']. \<not> sublist ''Restore'' x"
    using b by simp
  have all: "\<forall>x\<in>set [''restore_1'', ''Unrelated'']. \<not> sublist ''Restore'' x"
    using b d by simp
  have first: "GetNodeName [''Unrelated'', ''Restore_1'', ''Restore_2''] ''Restore'' = ''Restore_1''"
    by (rule GetNodeName_first_match
          [of "[''Unrelated'', ''Restore_1'', ''Restore_2'']" "''Restore''",
           THEN conjunct1, rule_format,
           of "[''Unrelated'']" "''Restore_1''" "[''Restore_2'']", OF conjI [OF a conjI [OF pre c]]])
  have none: "GetNodeName [''restore_1'', ''Unrelated''] ''Restore'' = []"
    by (rule GetNodeName_first_match
          [of "[''restore_1'', ''Unrelated'']" "''Restore''",
           THEN conjunct2, THEN conjunct1, THEN mp, OF all])
  show ?thesis
    by (intro conjI) (rule a b c d first none)+
qed

text \<open>
  C5. \<^verbatim>\<open>FindFilePrefixTensorName\<close> returns the name of the first node that is an argument
  node with the marker among the strings of its index path, followed by \<^verbatim>\<open>:0\<close>; when
  no node is such a node it returns the empty string, whatever other index paths the
  argument nodes carry. On the graph with the one argument node \<^verbatim>\<open>file_prefix\<close> whose
  index path holds \<^verbatim>\<open>__tf_file_prefix\<close> it returns \<^verbatim>\<open>file_prefix:0\<close>.
\<close>

theorem FindFilePrefixTensorName_first_match:
  "(\<forall>pre n post. node graph = pre @ n # post \<and> (\<forall>x\<in>set pre. \<not> is_file_prefix_arg c x)
       \<and> is_file_prefix_arg c n
      \<longrightarrow> FindFilePrefixTensorName c graph = name n @ '':0'')
   \<and> ((\<forall>x\<in>set (node graph). \<not> is_file_prefix_arg c x) \<longrightarrow> FindFilePrefixTensorName c graph = [])
   \<and> FindFilePrefixTensorName scenario_constants
        \<lparr>node = [\<lparr>name = ''file_prefix'', op = ''_Arg'',
                   attr = [''tf_saved_model.index_path'' \<mapsto> AttrList [''__tf_file_prefix'']]\<rparr>]\<rparr>
       = ''file_prefix:0''"
proof -
  have "FindFilePrefixTensorName c graph = name n @ '':0''"
    if "node graph = pre @ n # post" "\<forall>x\<in>set pre. \<not> is_file_prefix_arg c x"
       "is_file_prefix_arg c n"
    for pre n post
    using that
    by (simp add: FindFilePrefixTensorName_def loop_skip loop_step
        del: FindFilePrefixTensorName_loop.simps(2))
  moreover have "FindFilePrefixTensorName c graph = []"
    if "\<forall>x\<in>set (node graph). \<not> is_file_prefix_arg c x"
    using that by (simp add: FindFilePrefixTensorName_def loop_no_match)
  moreover have "FindFilePrefixTensorName scenario_constants
        \<lparr>node = [\<lparr>name = ''file_prefix'', op = ''_Arg'',
                   attr = [''tf_saved_model.index_path'' \<mapsto> AttrList [''__tf_file_prefix'']]\<rparr>]\<rparr>
       = ''file_prefix:0''"
    using locator_scenario_graph by (simp add: scenario_graph_def file_prefix_node_def)
  ultimately show ?thesis by blast
qed

theorem FindFilePrefixTensorName_first_match_witness:
  "(node two_prefix_graph
      = [other_arg_node ''input''] @ file_prefix_node ''first_prefix''
          # [file_prefix_node ''second_prefix'']
    \<and> \<not> is_file_prefix_arg scenario_constants (other_arg_node ''input'')
    \<and> is_file_prefix_arg scenario_constants (file_prefix_node ''first_prefix'')
    \<and> FindFilePrefixTensorName scenario_constants two_prefix_graph = ''first_prefix:0'')
   \<and> (node no_prefix_graph = [other_arg_node ''input'']
    \<and> FindFilePrefixTensorName scenario_constants no_prefix_graph = [])"
proof -
  have a: "node two_prefix_graph
      = [other_arg_node ''input''] @ file_prefix_node ''first_prefix''
          # [file_prefix_node ''second_prefix'']"
    by (simp add: two_prefix_graph_def)
  have b: "\<forall>x\<in>set [other_arg_node ''input'']. \<not> is_file_prefix_arg scenario_constants x"
    by (simp add: other_arg_node_no_match)
  have c: "is_file_prefix_arg scenario_constants (file_prefix_node ''first_prefix'')"
    by (rule file_prefix_node_matches)
  have d: "\<forall>x\<in>set (node no_prefix_graph). \<not> is_file_prefix_arg scenario_constants x"
    by (simp add: no_prefix_graph_def other_arg_node_no_match)
  note first = FindFilePrefixTensorName_first_match
    [of two_prefix_graph scenario_constants, THEN conjunct1, rule_format,
     of "[other_arg_node ''input'']" "file_prefix_node ''first_prefix''"
        "[file_prefix_node ''second_prefix'']"]
  note none = FindFilePrefixTensorName_first_match
    [of no_prefix_graph scenario_constants, THEN conjunct2, THEN conjunct1, rule_format]
  from first a b c
  have "FindFilePrefixTensorName scenario_constants two_prefix_graph = ''first_prefix:0''"
    by (simp add: file_prefix_node_name)
  moreover from none d have "FindFilePrefixTensorName scenario_constants no_prefix_graph = []"
    by blast
  ultimately show ?thesis using a b c d by (simp add: no_prefix_graph_def)
qed

text \<open>
  C6. \<^verbatim>\<open>AddExportPasses\<close> appends a fixed sequence of stages to the pass manager. With the
  flag set, the first stage added is the duplication of shape-determining constants and
  the last is the stripping of the no-inline attribute; with the flag clear, the
  duplication stage is left out and the other stages are the same, in the same order,
  the merge of the initializer functions, the merge of the save function, the merge of
  duplicate resource operations and the stripping being the last four, in that order.
\<close>

theorem AddExportPasses_order:
  "AddExportPasses pm True =
     pm @ [FuncOpPass DuplicateShapeDeterminingConstantsPass,
           ModulePass InsertMainFunctionPass,
           ModulePass LiftHashTableOpsAsArgsPass,
           FuncOpPass FunctionalToExecutorDialectConversionPass,
           ModulePass BreakUpIslandsPass,
           ModulePass MergeInitializerFunctionOpsToMainPass,
           ModulePass MergeSaveFunctionOpsToMainPass,
           FuncOpPass MergeDuplicateResourceOpsPass,
           ModulePass StripNoinlineAttributePass]
   \<and> AddExportPasses pm False =
     pm @ [ModulePass InsertMainFunctionPass,
           ModulePass LiftHashTableOpsAsArgsPass,
           FuncOpPass FunctionalToExecutorDialectConversionPass,
           ModulePass BreakUpIslandsPass,
           ModulePass MergeInitializerFunctionOpsToMainPass,
           ModulePass MergeSaveFunctionOpsToMainPass,
           FuncOpPass MergeDuplicateResourceOpsPass,
           ModulePass StripNoinlineAttributePass]
   \<and> hd (AddExportPasses [] True) = FuncOpPass DuplicateShapeDeterminingConstantsPass
   \<and> AddExportPasses [] True =
       FuncOpPass DuplicateShapeDeterminingConstantsPass # AddExportPasses [] False
   \<and> last (AddExportPasses pm flag) = ModulePass StripNoinlineAttributePass"
  by (cases flag) (simp_all add: AddExportPasses_def addPass_def addNestedPass_def)

text \<open>
  C7. The claim is that \<^verbatim>\<open>CreateExportedModel\<close> moves the graph into the model and leaves
  the caller's graph unusable. The code assigns from the named parameter, which copies:
  on the graph with the one node \<^verbatim>\<open>file_prefix\<close> the model ends up with the graph, and
  the caller's object still holds the same graph after the call.
\<close>

theorem CreateExportedModel_copies_graph:
  "graph_def (fst (CreateExportedModel scenario_graph ''init'' ''ckpt'' None Map.empty
                    ([] :: unit list))) = scenario_graph
   \<and> snd (CreateExportedModel scenario_graph ''init'' ''ckpt'' None Map.empty
            ([] :: unit list)) = scenario_graph
   \<and> node scenario_graph \<noteq> []"
  by (simp add: CreateExportedModel_def copy_assign_def ExportedModel_default_def
      scenario_graph_def)

text \<open>
  C8. With the empty string as the marker, \<^verbatim>\<open>GetNodeName\<close> returns the first element of a
  list that has one; on the empty list it returns the empty string for every marker.
\<close>

theorem GetNodeName_empty_marker:
  "GetNodeName (first # rest) [] = first \<and> GetNodeName [] marker = []"
  by (simp add: StrContains_empty_needle)

text \<open>
  C9. When two or more nodes of the graph are argument nodes carrying the marker,
  \<^verbatim>\<open>FindFilePrefixTensorName\<close> returns the name of the first of them in the order of the
  node list, followed by \<^verbatim>\<open>:0\<close>; its result is a plain string, there is no error.
\<close>

theorem FindFilePrefixTensorName_duplicates_first_wins:
  assumes "2 \<le> length (filter (is_file_prefix_arg c) (node graph))"
  shows "FindFilePrefixTensorName c graph =
           name (hd (filter (is_file_prefix_arg c) (node graph))) @ '':0''"
proof -
  from assms have "filter (is_file_prefix_arg c) (node graph) \<noteq> []"
    by auto
  then show ?thesis
    by (simp add: FindFilePrefixTensorName_def loop_first_of_filter)
qed

theorem FindFilePrefixTensorName_duplicates_first_wins_witness:
  "2 \<le> length (filter (is_file_prefix_arg scenario_constants) (node two_prefix_graph))
   \<and> hd (filter (is_file_prefix_arg scenario_constants) (node two_prefix_graph))
       = file_prefix_node ''first_prefix''
   \<and> FindFilePrefixTensorName scenario_constants two_prefix_graph = ''first_prefix:0''"
proof -
  have f: "filter (is_file_prefix_arg scenario_constants) (node two_prefix_graph)
           = [file_prefix_node ''first_prefix'', file_prefix_node ''second_prefix'']"
    by (simp add: two_prefix_graph_def other_arg_node_no_match file_prefix_node_matches)
  then have h: "2 \<le> length (filter (is_file_prefix_arg scenario_constants) (node two_prefix_graph))"
    by simp
  from FindFilePrefixTensorName_duplicates_first_wins [OF h] h show ?thesis
    by (simp add: f file_prefix_node_name)
qed

text \<open>
  C10. Every descriptor that \<^verbatim>\<open>CreateSaverDef\<close> returns has a file name tensor and a save
  tensor that end with \<^verbatim>\<open>:0\<close>, a restore operation that is one of the control output
  names it was given, and version V2.
\<close>

theorem CreateSaverDef_descriptor_shape:
  assumes "CreateSaverDef c names graph = Inr (Some saver)"
  shows "suffix '':0'' (filename_tensor_name saver)
         \<and> suffix '':0'' (save_tensor_name saver)
         \<and> restore_op_name saver \<in> set names
         \<and> version saver = V2"
proof -
  let ?f = "FindFilePrefixTensorName c graph"
  let ?r = "GetNodeName names (kTfSavedModelInitializerRestoreType c)"
  let ?s = "GetNodeName names (kTfQuantSaveOpName c)"
  from assms have ne: "?f \<noteq> []" "?r \<noteq> []" "?s \<noteq> []"
    and sd: "saver = \<lparr>filename_tensor_name = ?f, save_tensor_name = ?s @ '':0'',
                      restore_op_name = ?r, version = V2\<rparr>"
    by (auto simp: CreateSaverDef_cases Let_def split: if_splits)
  have "suffix '':0'' ?f"
    using ne(1) loop_suffix [of c "node graph"] by (simp add: FindFilePrefixTensorName_def)
  moreover have "?r \<in> set names"
    using ne(2) GetNodeName_result [of names "kTfSavedModelInitializerRestoreType c"] by simp
  moreover have "suffix '':0'' (?s @ '':0'')"
    by (simp add: suffix_def)
  ultimately show ?thesis
    by (simp add: sd)
qed

theorem CreateSaverDef_descriptor_shape_witness:
  "CreateSaverDef scenario_constants scenario_names scenario_graph =
     Inr (Some \<lparr>filename_tensor_name = ''file_prefix:0'',
                save_tensor_name = ''tf_quant__save_op:0'',
                restore_op_name = ''Restore_1'',
                version = V2\<rparr>)
   \<and> suffix '':0'' ''file_prefix:0''
   \<and> suffix '':0'' ''tf_quant__save_op:0''
   \<and> ''Restore_1'' \<in> set scenario_names"
proof -
  have h: "CreateSaverDef scenario_constants scenario_names scenario_graph =
     Inr (Some \<lparr>filename_tensor_name = ''file_prefix:0'',
                save_tensor_name = ''tf_quant__save_op:0'',
                restore_op_name = ''Restore_1'',
                version = V2\<rparr>)"
    by (simp add: CreateSaverDef_cases Let_def locator_scenario_graph
        resolver_scenario_restore resolver_scenario_save)
  from CreateSaverDef_descriptor_shape [OF h] h show ?thesis
    by simp
qed

end
